theory Spec2Isabelle
  imports Main "HOL-Library.Monad_Syntax"
begin

section \<open>Go values and outcomes\<close>

text \<open>
  A Go \<^verbatim>\<open>error\<close> value is represented by its message. A pointer is an
  \<open>option\<close>: \<open>None\<close> is \<^verbatim>\<open>nil\<close>, and dereferencing it panics. A function
  either hands a value back to its caller (\<open>Inr\<close>) or the process is torn down
  (\<open>Inl\<close>): by a runtime panic (nil dereference, failed type assertion) or by
  \<^verbatim>\<open>log.Fatalf\<close>, which prints the message and exits.
\<close>

type_synonym error = string

datatype abort = Panic | Fatal string

text \<open>\<^verbatim>\<open>strings.HasPrefix\<close> and \<^verbatim>\<open>strings.Contains\<close> of the Go standard library.\<close>

definition HasPrefix :: "string \<Rightarrow> string \<Rightarrow> bool" where
  "HasPrefix s prefix = (take (length prefix) s = prefix)"

fun Contains :: "string \<Rightarrow> string \<Rightarrow> bool" where
  "Contains [] substr = (substr = [])"
| "Contains (c # s) substr = (HasPrefix (c # s) substr \<or> Contains s substr)"

section \<open>The AKS analyzer (cmd/azqr/analyzers/aks_analyzer.go)\<close>

text \<open>
  The parts of \<^verbatim>\<open>armcontainerservice.ManagedCluster\<close> that the analyzer and the AKS
  rules read. Every pointer field is an \<open>option\<close>. The slice of availability zones
  is an \<open>option\<close> too, because the code tests it against \<^verbatim>\<open>nil\<close>; the slice of agent
  pool profiles is only ranged over, where a nil slice and an empty one behave alike,
  so it is a plain list.
\<close>

record ManagedClusterAgentPoolProfile =
  pool_AvailabilityZones :: "string option list option"

record ManagedClusterSKU =
  sku_Tier :: "string option"

record ManagedClusterAPIServerAccessProfile =
  EnablePrivateCluster :: "bool option"

record ManagedClusterAddonProfile =
  Enabled :: bool

record ManagedClusterProperties =
  AgentPoolProfiles :: "ManagedClusterAgentPoolProfile option list"
  APIServerAccessProfile :: "ManagedClusterAPIServerAccessProfile option"
  AddonProfiles :: "string \<rightharpoonup> ManagedClusterAddonProfile"

record ManagedCluster =
  mc_ID :: "string option"
  mc_Name :: "string option"
  mc_Type :: "string option"
  mc_SKU :: "ManagedClusterSKU option"
  mc_Properties :: "ManagedClusterProperties option"

record AzureServiceResult =
  SubscriptionId :: string
  ResourceGroup :: string
  ServiceName :: string
  Sku :: string
  Sla :: string
  Type :: string
  AvailabilityZones :: bool
  PrivateEndpoints :: bool
  DiagnosticSettings :: bool
  CAFNaming :: bool

text \<open>
  The analyzer. \<open>diagnosticsSettings\<close> stands for the method
  \<^verbatim>\<open>DiagnosticsSettings.HasDiagnostics\<close>, a collaborator that returns the Go pair
  \<^verbatim>\<open>(bool, error)\<close>. \<open>clustersClient\<close> stands for the SDK pager built by
  \<^verbatim>\<open>NewListByResourceGroupPager\<close>: for a resource group it gives the outcomes of the
  successive \<^verbatim>\<open>NextPage\<close> calls, \<^verbatim>\<open>More()\<close> being true while one remains. The
  fields \<^verbatim>\<open>ctx\<close> and \<^verbatim>\<open>cred\<close> are only handed on to the SDK.
\<close>

record AKSAnalyzer =
  diagnosticsSettings :: "string \<Rightarrow> bool \<times> error option"
  subscriptionId :: string
  clustersClient :: "string \<Rightarrow> (error + ManagedCluster option list) list"

text \<open>
  \<^verbatim>\<open>listClusters\<close>: the loop over the pager, with the clusters gathered so far. It
  returns the Go pair \<^verbatim>\<open>([]*ManagedCluster, error)\<close>; \<open>None\<close> is the nil slice.
\<close>

fun listClusters_loop ::
  "(error + ManagedCluster option list) list \<Rightarrow> ManagedCluster option list
    \<Rightarrow> ManagedCluster option list option \<times> error option" where
  "listClusters_loop [] clusters = (Some clusters, None)"
| "listClusters_loop (Inl err # pager) clusters = (None, Some err)"
| "listClusters_loop (Inr resp_Value # pager) clusters =
     listClusters_loop pager (clusters @ resp_Value)"

definition listClusters ::
  "AKSAnalyzer \<Rightarrow> string \<Rightarrow> ManagedCluster option list option \<times> error option" where
  "listClusters a resourceGroupName = listClusters_loop (clustersClient a resourceGroupName) []"

text \<open>
  The inner loop of \<^verbatim>\<open>Review\<close> over the agent pool profiles, with the current value
  of \<^verbatim>\<open>zones\<close>. A nil profile pointer panics (\<open>None\<close>).
\<close>

fun Review_zones :: "ManagedClusterAgentPoolProfile option list \<Rightarrow> bool \<Rightarrow> bool option" where
  "Review_zones [] zones = Some zones"
| "Review_zones (None # profiles) zones = None"
| "Review_zones (Some profile # profiles) zones =
     Review_zones profiles
       (if pool_AvailabilityZones profile = None
           \<or> (pool_AvailabilityZones profile \<noteq> None
               \<and> length (the (pool_AvailabilityZones profile)) \<le> 1)
        then False else zones)"

text \<open>
  The body of the outer loop after the diagnostics lookup: the row of one cluster.
  \<open>None\<close> is a nil-pointer panic.
\<close>

definition Review_row :: "AKSAnalyzer \<Rightarrow> string \<Rightarrow> ManagedCluster \<Rightarrow> bool \<Rightarrow> AzureServiceResult option" where
  "Review_row a resourceGroupName c hasDiagnostics = do {
     properties \<leftarrow> mc_Properties c;
     zones \<leftarrow> Review_zones (AgentPoolProfiles properties) True;
     sku \<leftarrow> mc_SKU c \<bind> sku_Tier;
     let sla = (if sku = ''Paid'' then (if zones then ''99.95%'' else ''99.9%'') else ''None'');
     name \<leftarrow> mc_Name c;
     type \<leftarrow> mc_Type c;
     private \<leftarrow> APIServerAccessProfile properties \<bind> EnablePrivateCluster;
     Some \<lparr> SubscriptionId = subscriptionId a,
            ResourceGroup = resourceGroupName,
            ServiceName = name,
            Sku = sku,
            Sla = sla,
            Type = type,
            AvailabilityZones = zones,
            PrivateEndpoints = private,
            DiagnosticSettings = hasDiagnostics,
            CAFNaming = HasPrefix name ''aks'' \<rparr>
   }"

text \<open>
  The outer loop of \<^verbatim>\<open>Review\<close>, with the rows appended so far. A nil cluster pointer
  panics at \<^verbatim>\<open>*c.ID\<close>. A value handed back is the Go pair \<^verbatim>\<open>([]AzureServiceResult, error)\<close>, \<open>None\<close> being the nil
  slice.
\<close>

fun Review_loop ::
  "AKSAnalyzer \<Rightarrow> string \<Rightarrow> ManagedCluster option list \<Rightarrow> AzureServiceResult list
    \<Rightarrow> abort + (AzureServiceResult list option \<times> error option)" where
  "Review_loop a resourceGroupName [] results = Inr (Some results, None)"
| "Review_loop a resourceGroupName (None # clusters) results = Inl Panic"
| "Review_loop a resourceGroupName (Some c # clusters) results =
     (case mc_ID c of
        None \<Rightarrow> Inl Panic
      | Some c_ID \<Rightarrow>
          (case diagnosticsSettings a c_ID of
             (hasDiagnostics, Some err) \<Rightarrow> Inr (None, Some err)
           | (hasDiagnostics, None) \<Rightarrow>
               (case Review_row a resourceGroupName c hasDiagnostics of
                  None \<Rightarrow> Inl Panic
                | Some row \<Rightarrow> Review_loop a resourceGroupName clusters (results @ [row]))))"

definition Review ::
  "AKSAnalyzer \<Rightarrow> string \<Rightarrow> abort + (AzureServiceResult list option \<times> error option)" where
  "Review a resourceGroupName =
     (case listClusters a resourceGroupName of
        (clusters, Some err) \<Rightarrow> Inr (None, Some err)
      | (clusters, None) \<Rightarrow>
          Review_loop a resourceGroupName (case clusters of None \<Rightarrow> [] | Some cs \<Rightarrow> cs) [])"

section \<open>The scanners' rules (internal/scanners)\<close>

text \<open>
  \<^verbatim>\<open>scanners.ScanContext\<close> is passed to every \<^verbatim>\<open>Eval\<close> by pointer; the rules read
  only its map of private endpoints, and only for the presence of a key.
\<close>

record ScanContext =
  sc_PrivateEndpoints :: "string \<rightharpoonup> bool"

text \<open>
  The resource types of the Azure SDK, with the fields that the rules below read.
  \<^verbatim>\<open>armeventhub.EHNamespace\<close>:
\<close>

record EHNamespaceSKU =
  ehsku_Name :: "string option"

record EHNamespaceProperties =
  eh_ZoneRedundant :: "bool option"
  eh_DisableLocalAuth :: "bool option"

record EHNamespace =
  eh_ID :: "string option"
  eh_Name :: "string option"
  eh_SKU :: "EHNamespaceSKU option"
  eh_Properties :: "EHNamespaceProperties option"

text \<open>\<^verbatim>\<open>armappcontainers.ManagedEnvironment\<close>:\<close>

record ManagedEnvironmentProperties =
  cae_ZoneRedundant :: "bool option"

record ManagedEnvironment =
  cae_ID :: "string option"
  cae_Name :: "string option"
  cae_Properties :: "ManagedEnvironmentProperties option"

text \<open>\<^verbatim>\<open>armappservice.Plan\<close> and \<^verbatim>\<open>armappservice.Site\<close>:\<close>

record SkuDescription =
  plan_Tier :: "string option"

record PlanProperties =
  plan_ZoneRedundant :: "bool option"

record Plan =
  plan_ID :: "string option"
  plan_Name :: "string option"
  plan_SKU :: "SkuDescription option"
  plan_Properties :: "PlanProperties option"

record SiteProperties =
  HTTPSOnly :: "bool option"

record Site =
  site_ID :: "string option"
  site_Name :: "string option"
  site_Properties :: "SiteProperties option"

text \<open>\<^verbatim>\<open>armsignalr.ResourceInfo\<close>:\<close>

record ResourceInfo =
  sigr_ID :: "string option"
  sigr_Name :: "string option"

text \<open>
  The \<^verbatim>\<open>interface{}\<close> argument of \<^verbatim>\<open>Eval\<close>: a pointer (possibly nil) of one of
  the resource types, or a value of any other dynamic type.
\<close>

datatype target =
    EHNamespacePtr "EHNamespace option"
  | ManagedEnvironmentPtr "ManagedEnvironment option"
  | PlanPtr "Plan option"
  | SitePtr "Site option"
  | ResourceInfoPtr "ResourceInfo option"
  | ManagedClusterPtr "ManagedCluster option"
  | OtherTarget

text \<open>
  A type assertion \<^verbatim>\<open>target.(*T)\<close> followed by the first field access: \<open>None\<close>
  when either panics (wrong dynamic type, or a nil pointer of the right type).
\<close>

fun the_EHNamespace :: "target \<Rightarrow> EHNamespace option" where
  "the_EHNamespace (EHNamespacePtr p) = p"
| "the_EHNamespace _ = None"

fun the_ManagedEnvironment :: "target \<Rightarrow> ManagedEnvironment option" where
  "the_ManagedEnvironment (ManagedEnvironmentPtr p) = p"
| "the_ManagedEnvironment _ = None"

fun the_Plan :: "target \<Rightarrow> Plan option" where
  "the_Plan (PlanPtr p) = p"
| "the_Plan _ = None"

fun the_Site :: "target \<Rightarrow> Site option" where
  "the_Site (SitePtr p) = p"
| "the_Site _ = None"

fun the_ResourceInfo :: "target \<Rightarrow> ResourceInfo option" where
  "the_ResourceInfo (ResourceInfoPtr p) = p"
| "the_ResourceInfo _ = None"

fun the_ManagedCluster :: "target \<Rightarrow> ManagedCluster option" where
  "the_ManagedCluster (ManagedClusterPtr p) = p"
| "the_ManagedCluster _ = None"

text \<open>
  The message that
  \<^verbatim>\<open>log.Fatalf("Error checking diagnostic settings for service %s: %s", name, err)\<close>
  prints before it exits.
\<close>

definition Fatalf_message :: "string \<Rightarrow> error \<Rightarrow> string" where
  "Fatalf_message name err =
     ''Error checking diagnostic settings for service '' @ name @ '': '' @ err"

text \<open>
  The body that the six \<^verbatim>\<open>DiagnosticSettings\<close> rules repeat word for word once the
  resource's \<^verbatim>\<open>ID\<close> has been dereferenced: the lookup, then on an error the call of
  \<^verbatim>\<open>log.Fatalf\<close>, whose argument \<^verbatim>\<open>*service.Name\<close> is evaluated (and may panic)
  before the call.
\<close>

definition checkDiagnostics ::
  "(string \<Rightarrow> bool \<times> error option) \<Rightarrow> string \<Rightarrow> string option \<Rightarrow> abort + (bool \<times> string)" where
  "checkDiagnostics HasDiagnostics service_ID service_Name =
     (case HasDiagnostics service_ID of
        (hasDiagnostics, Some err) \<Rightarrow>
          (case service_Name of
             None \<Rightarrow> Inl Panic
           | Some name \<Rightarrow> Inl (Fatal (Fatalf_message name err)))
      | (hasDiagnostics, None) \<Rightarrow> Inr (\<not> hasDiagnostics, ''''))"

subsection \<open>Event Hub (internal/scanners/evh/rules.go)\<close>

text \<open>
  Each rule is the \<^verbatim>\<open>Eval\<close> closure registered under the given key; the rules that
  use the scanner's \<^verbatim>\<open>diagnosticsSettings\<close> take its \<^verbatim>\<open>HasDiagnostics\<close> first.
\<close>

definition evh_001 ::
  "(string \<Rightarrow> bool \<times> error option) \<Rightarrow> target \<Rightarrow> ScanContext option \<Rightarrow> abort + (bool \<times> string)" where
  "evh_001 HasDiagnostics target scanContext =
     (case the_EHNamespace target of
        None \<Rightarrow> Inl Panic
      | Some service \<Rightarrow>
          (case eh_ID service of
             None \<Rightarrow> Inl Panic
           | Some service_ID \<Rightarrow> checkDiagnostics HasDiagnostics service_ID (eh_Name service)))"

definition evh_002 :: "target \<Rightarrow> ScanContext option \<Rightarrow> abort + (bool \<times> string)" where
  "evh_002 target scanContext =
     (case the_EHNamespace target \<bind> eh_Properties \<bind> eh_ZoneRedundant of
        None \<Rightarrow> Inl Panic
      | Some zones \<Rightarrow> Inr (\<not> zones, ''''))"

definition evh_003 :: "target \<Rightarrow> ScanContext option \<Rightarrow> abort + (bool \<times> string)" where
  "evh_003 target scanContext =
     (case the_EHNamespace target \<bind> eh_SKU \<bind> ehsku_Name of
        None \<Rightarrow> Inl Panic
      | Some sku \<Rightarrow>
          Inr (False,
               if \<not> Contains sku ''Basic'' \<and> \<not> Contains sku ''Standard''
               then ''99.99%'' else ''99.95%''))"

definition evh_008 :: "target \<Rightarrow> ScanContext option \<Rightarrow> abort + (bool \<times> string)" where
  "evh_008 target scanContext =
     (case the_EHNamespace target \<bind> eh_Properties of
        None \<Rightarrow> Inl Panic
      | Some properties \<Rightarrow>
          Inr (eh_DisableLocalAuth properties \<noteq> None \<and> \<not> the (eh_DisableLocalAuth properties), ''''))"

subsection \<open>Container Apps (internal/scanners/cae/rules.go)\<close>

definition cae_001 ::
  "(string \<Rightarrow> bool \<times> error option) \<Rightarrow> target \<Rightarrow> ScanContext option \<Rightarrow> abort + (bool \<times> string)" where
  "cae_001 HasDiagnostics target scanContext =
     (case the_ManagedEnvironment target of
        None \<Rightarrow> Inl Panic
      | Some service \<Rightarrow>
          (case cae_ID service of
             None \<Rightarrow> Inl Panic
           | Some service_ID \<Rightarrow> checkDiagnostics HasDiagnostics service_ID (cae_Name service)))"

definition cae_002 :: "target \<Rightarrow> ScanContext option \<Rightarrow> abort + (bool \<times> string)" where
  "cae_002 target scanContext =
     (case the_ManagedEnvironment target \<bind> cae_Properties \<bind> cae_ZoneRedundant of
        None \<Rightarrow> Inl Panic
      | Some zones \<Rightarrow> Inr (\<not> zones, ''''))"

definition cae_003 :: "target \<Rightarrow> ScanContext option \<Rightarrow> abort + (bool \<times> string)" where
  "cae_003 target scanContext = Inr (False, ''99.95%'')"

subsection \<open>App Service (internal/scanners/plan/rules.go)\<close>

definition plan_001 ::
  "(string \<Rightarrow> bool \<times> error option) \<Rightarrow> target \<Rightarrow> ScanContext option \<Rightarrow> abort + (bool \<times> string)" where
  "plan_001 HasDiagnostics target scanContext =
     (case the_Plan target of
        None \<Rightarrow> Inl Panic
      | Some service \<Rightarrow>
          (case plan_ID service of
             None \<Rightarrow> Inl Panic
           | Some service_ID \<Rightarrow> checkDiagnostics HasDiagnostics service_ID (plan_Name service)))"

definition plan_002 :: "target \<Rightarrow> ScanContext option \<Rightarrow> abort + (bool \<times> string)" where
  "plan_002 target scanContext =
     (case the_Plan target \<bind> plan_Properties \<bind> plan_ZoneRedundant of
        None \<Rightarrow> Inl Panic
      | Some zones \<Rightarrow> Inr (\<not> zones, ''''))"

definition plan_003 :: "target \<Rightarrow> ScanContext option \<Rightarrow> abort + (bool \<times> string)" where
  "plan_003 target scanContext =
     (case the_Plan target \<bind> plan_SKU \<bind> plan_Tier of
        None \<Rightarrow> Inl Panic
      | Some sku \<Rightarrow>
          (let sla = (if sku \<noteq> ''Free'' \<and> sku \<noteq> ''Shared'' then ''99.95%'' else ''None'')
           in Inr (sla = ''None'', sla)))"

definition app_001 ::
  "(string \<Rightarrow> bool \<times> error option) \<Rightarrow> target \<Rightarrow> ScanContext option \<Rightarrow> abort + (bool \<times> string)" where
  "app_001 HasDiagnostics target scanContext =
     (case the_Site target of
        None \<Rightarrow> Inl Panic
      | Some service \<Rightarrow>
          (case site_ID service of
             None \<Rightarrow> Inl Panic
           | Some service_ID \<Rightarrow> checkDiagnostics HasDiagnostics service_ID (site_Name service)))"

definition app_007 :: "target \<Rightarrow> ScanContext option \<Rightarrow> abort + (bool \<times> string)" where
  "app_007 target scanContext =
     (case the_Site target \<bind> site_Properties \<bind> HTTPSOnly of
        None \<Rightarrow> Inl Panic
      | Some h \<Rightarrow> Inr (\<not> h, ''''))"

definition func_001 ::
  "(string \<Rightarrow> bool \<times> error option) \<Rightarrow> target \<Rightarrow> ScanContext option \<Rightarrow> abort + (bool \<times> string)" where
  "func_001 HasDiagnostics target scanContext =
     (case the_Site target of
        None \<Rightarrow> Inl Panic
      | Some service \<Rightarrow>
          (case site_ID service of
             None \<Rightarrow> Inl Panic
           | Some service_ID \<Rightarrow> checkDiagnostics HasDiagnostics service_ID (site_Name service)))"

definition func_007 :: "target \<Rightarrow> ScanContext option \<Rightarrow> abort + (bool \<times> string)" where
  "func_007 target scanContext =
     (case the_Site target \<bind> site_Properties of
        None \<Rightarrow> Inl Panic
      | Some properties \<Rightarrow>
          (let h = (HTTPSOnly properties \<noteq> None \<and> the (HTTPSOnly properties))
           in Inr (\<not> h, '''')))"

subsection \<open>SignalR (internal/scanners/sigr/rules.go)\<close>

definition sigr_001 ::
  "(string \<Rightarrow> bool \<times> error option) \<Rightarrow> target \<Rightarrow> ScanContext option \<Rightarrow> abort + (bool \<times> string)" where
  "sigr_001 HasDiagnostics target scanContext =
     (case the_ResourceInfo target of
        None \<Rightarrow> Inl Panic
      | Some service \<Rightarrow>
          (case sigr_ID service of
             None \<Rightarrow> Inl Panic
           | Some service_ID \<Rightarrow> checkDiagnostics HasDiagnostics service_ID (sigr_Name service)))"

definition sigr_003 :: "target \<Rightarrow> ScanContext option \<Rightarrow> abort + (bool \<times> string)" where
  "sigr_003 target scanContext = Inr (False, ''99.9%'')"

subsection \<open>AKS addon rules (internal/scanners/aks/rules.go)\<close>

text \<open>
  Modelled from the spec: the \<^verbatim>\<open>Eval\<close> closures of the AKS rules aks-010 and
  aks-011; the repository's files here hold only their test table. The spec has
  them look a case-sensitive key up in the string-keyed map of addon profiles,
  with an absent \<^verbatim>\<open>httpApplicationRouting\<close> compliant and an absent \<^verbatim>\<open>omsagent\<close>
  non-compliant; the test table adds that an enabled HTTP application routing is
  broken and a disabled one is not, and that an enabled monitoring agent is not
  broken and a disabled one is. Neither says what a nil profile or a nil
  \<^verbatim>\<open>Enabled\<close> flag does, so a profile in the map is there with its flag.
\<close>

definition aks_010 :: "target \<Rightarrow> ScanContext option \<Rightarrow> abort + (bool \<times> string)" where
  "aks_010 target scanContext =
     (case the_ManagedCluster target \<bind> mc_Properties of
        None \<Rightarrow> Inl Panic
      | Some properties \<Rightarrow>
          (case AddonProfiles properties ''httpApplicationRouting'' of
             None \<Rightarrow> Inr (False, '''')
           | Some p \<Rightarrow> Inr (Enabled p, '''')))"

text \<open>Modelled from the spec: see \<open>aks_010\<close>.\<close>

definition aks_011 :: "target \<Rightarrow> ScanContext option \<Rightarrow> abort + (bool \<times> string)" where
  "aks_011 target scanContext =
     (case the_ManagedCluster target \<bind> mc_Properties of
        None \<Rightarrow> Inl Panic
      | Some properties \<Rightarrow>
          (case AddonProfiles properties ''omsagent'' of
             None \<Rightarrow> Inr (True, '''')
           | Some p \<Rightarrow> Inr (\<not> Enabled p, '''')))"

section \<open>Zone redundancy of an agent pool\<close>

text \<open>
  An agent pool profile counts as zone redundant when it is there, its list of
  availability zones is there, and the list has at least two entries.
\<close>

definition pool_zoned :: "ManagedClusterAgentPoolProfile option \<Rightarrow> bool" where
  "pool_zoned p =
     (case p of
        None \<Rightarrow> False
      | Some profile \<Rightarrow>
          (case pool_AvailabilityZones profile of
             None \<Rightarrow> False
           | Some zs \<Rightarrow> 2 \<le> length zs))"

section \<open>Properties of the AKS analyzer\<close>

subsection \<open>The loops\<close>

lemma Review_zones_Some:
  "Review_zones profiles zones = Some r \<Longrightarrow> r = (zones \<and> list_all pool_zoned profiles)"
  by (induction profiles zones rule: Review_zones.induct)
     (auto simp: pool_zoned_def split: option.splits)

lemma pool_zoned_iff:
  "pool_zoned p \<longleftrightarrow>
     (\<exists>profile zs. p = Some profile \<and> pool_AvailabilityZones profile = Some zs \<and> 2 \<le> length zs)"
  by (auto simp: pool_zoned_def split: option.splits)

lemma list_all_pool_zoned:
  "list_all pool_zoned profiles \<longleftrightarrow>
     (\<forall>p\<in>set profiles. \<exists>profile zs.
        p = Some profile \<and> pool_AvailabilityZones profile = Some zs \<and> 2 \<le> length zs)"
  by (simp add: list_all_iff pool_zoned_iff)

lemma Review_row_Some:
  assumes "Review_row a rg c h = Some row"
  shows "\<exists>properties tier.
           mc_Properties c = Some properties \<and> mc_SKU c \<bind> sku_Tier = Some tier
           \<and> AvailabilityZones row = list_all pool_zoned (AgentPoolProfiles properties)
           \<and> Sla row = (if tier = ''Paid''
                         then if AvailabilityZones row then ''99.95%'' else ''99.9%''
                         else ''None'')"
proof -
  from assms obtain properties zones tier where
    p: "mc_Properties c = Some properties" and
    z: "Review_zones (AgentPoolProfiles properties) True = Some zones" and
    t: "mc_SKU c \<bind> sku_Tier = Some tier" and
    az: "AvailabilityZones row = zones" and
    sla: "Sla row = (if tier = ''Paid'' then if zones then ''99.95%'' else ''99.9%'' else ''None'')"
    by (auto simp: Review_row_def Let_def split: Option.bind_splits)
  from Review_zones_Some[OF z] have "zones = list_all pool_zoned (AgentPoolProfiles properties)"
    by simp
  with p t az sla show ?thesis
    by simp
qed

lemma Review_loop_rows:
  "Review_loop a rg clusters results = Inr (Some rows, e) \<Longrightarrow>
     e = None \<and> (\<exists>new. rows = results @ new
        \<and> list_all2 (\<lambda>c row. \<exists>mc h. c = Some mc \<and> Review_row a rg mc h = Some row) clusters new)"
proof (induction a rg clusters results rule: Review_loop.induct)
  case (1 a rg results)
  then show ?case by simp
next
  case (2 a rg clusters results)
  then show ?case by simp
next
  case (3 a rg c clusters results)
  then show ?case
    by (fastforce split: option.splits prod.splits)
qed

lemma Review_loop_error:
  "Review_loop a rg clusters results = Inr (rows, Some e) \<Longrightarrow> rows = None"
  by (cases rows) (auto dest: Review_loop_rows)

lemma Review_loop_append:
  "Review_loop a rg pre results = Inr (Some rows, None) \<Longrightarrow>
     Review_loop a rg (pre @ post) results = Review_loop a rg post rows"
  by (induction a rg pre results rule: Review_loop.induct)
     (auto split: option.splits prod.splits)

lemma listClusters_loop_no_error:
  "listClusters_loop pager clusters = (x, None) \<Longrightarrow> \<exists>cs. x = Some cs"
  by (induction pager clusters rule: listClusters_loop.induct) auto

lemma listClusters_loop_first_error:
  "\<forall>p\<in>set pre. \<exists>v. p = Inr v \<Longrightarrow>
     listClusters_loop (pre @ Inl err # post) clusters = (None, Some err)"
proof (induction pre arbitrary: clusters)
  case Nil
  then show ?case by simp
next
  case (Cons p pre)
  then obtain v where "p = Inr v" by auto
  with Cons show ?case by simp
qed

lemma Review_rows:
  assumes "Review a rg = Inr (Some rows, e)"
  shows "e = None \<and> (\<exists>clusters. listClusters a rg = (Some clusters, None)
     \<and> list_all2 (\<lambda>c row. \<exists>mc h. c = Some mc \<and> Review_row a rg mc h = Some row) clusters rows)"
proof -
  obtain x err where l: "listClusters a rg = (x, err)"
    by (cases "listClusters a rg")
  with assms have err: "err = None"
    by (cases err) (auto simp: Review_def)
  with l obtain cs where x: "x = Some cs"
    using listClusters_loop_no_error unfolding listClusters_def by blast
  from assms l err x have "Review_loop a rg cs [] = Inr (Some rows, e)"
    by (simp add: Review_def)
  from Review_loop_rows[OF this] l err x show ?thesis by auto
qed

lemma Review_each_row:
  assumes "Review a rg = Inr (Some rows, None)"
  shows "\<exists>clusters. listClusters a rg = (Some clusters, None)
           \<and> length rows = length clusters
           \<and> (\<forall>i<length clusters. \<exists>c h. clusters ! i = Some c
                 \<and> Review_row a rg c h = Some (rows ! i))"
proof -
  from Review_rows[OF assms] obtain clusters where
    l: "listClusters a rg = (Some clusters, None)" and
    r: "list_all2 (\<lambda>c row. \<exists>mc h. c = Some mc \<and> Review_row a rg mc h = Some row) clusters rows"
    by blast
  from r have "\<forall>i<length clusters. \<exists>c h. clusters ! i = Some c
                 \<and> Review_row a rg c h = Some (rows ! i)"
    by (auto dest: list_all2_nthD)
  with l list_all2_lengthD[OF r] show ?thesis by auto
qed

lemma Review_each_cluster:
  assumes "Review a rg = Inr (Some rows, None)"
  shows "\<exists>clusters. listClusters a rg = (Some clusters, None)
           \<and> length rows = length clusters
           \<and> (\<forall>i<length clusters. \<exists>c properties tier.
                 clusters ! i = Some c
                 \<and> mc_Properties c = Some properties
                 \<and> mc_SKU c \<bind> sku_Tier = Some tier
                 \<and> AvailabilityZones (rows ! i) =
                     (\<forall>p\<in>set (AgentPoolProfiles properties). \<exists>profile zs.
                        p = Some profile \<and> pool_AvailabilityZones profile = Some zs
                        \<and> 2 \<le> length zs)
                 \<and> Sla (rows ! i) =
                     (if tier = ''Paid''
                      then if AvailabilityZones (rows ! i) then ''99.95%'' else ''99.9%''
                      else ''None''))"
proof -
  from Review_each_row[OF assms] obtain clusters where
    l: "listClusters a rg = (Some clusters, None)" and
    n: "length rows = length clusters" and
    r: "\<forall>i<length clusters. \<exists>c h. clusters ! i = Some c
          \<and> Review_row a rg c h = Some (rows ! i)"
    by blast
  have "\<exists>c properties tier.
          clusters ! i = Some c \<and> mc_Properties c = Some properties
          \<and> mc_SKU c \<bind> sku_Tier = Some tier
          \<and> AvailabilityZones (rows ! i) =
              (\<forall>p\<in>set (AgentPoolProfiles properties). \<exists>profile zs.
                 p = Some profile \<and> pool_AvailabilityZones profile = Some zs
                 \<and> 2 \<le> length zs)
          \<and> Sla (rows ! i) =
              (if tier = ''Paid''
               then if AvailabilityZones (rows ! i) then ''99.95%'' else ''99.9%''
               else ''None'')"
    if "i < length clusters" for i
  proof -
    from r that obtain c h where
      c: "clusters ! i = Some c" and
      row: "Review_row a rg c h = Some (rows ! i)"
      by blast
    from Review_row_Some[OF row] obtain properties tier where
      "mc_Properties c = Some properties" "mc_SKU c \<bind> sku_Tier = Some tier"
      "AvailabilityZones (rows ! i) = list_all pool_zoned (AgentPoolProfiles properties)"
      "Sla (rows ! i) = (if tier = ''Paid''
                         then if AvailabilityZones (rows ! i) then ''99.95%'' else ''99.9%''
                         else ''None'')"
      by blast
    with c show ?thesis
      unfolding list_all_pool_zoned by blast
  qed
  with l n show ?thesis by blast
qed

subsection \<open>The SLA of a cluster\<close>

text \<open>
  Claim C1. Whenever \<^verbatim>\<open>Review\<close> hands rows back, there is one row per listed
  cluster, in order, and the row's \<open>Sla\<close> is decided by the cluster's SKU tier and
  its agent pools: tier \<^verbatim>\<open>Paid\<close> with every agent pool having a zone list of at
  least two entries gives \<^verbatim>\<open>99.95%\<close>, tier \<^verbatim>\<open>Paid\<close> otherwise gives \<^verbatim>\<open>99.9%\<close>,
  and any other tier gives \<^verbatim>\<open>None\<close> whatever the zones are.
\<close>

theorem Review_sla:
  assumes "Review a resourceGroupName = Inr (Some rows, None)"
  shows "\<exists>clusters. listClusters a resourceGroupName = (Some clusters, None)
           \<and> length rows = length clusters
           \<and> (\<forall>i<length clusters. \<exists>c properties tier.
                 clusters ! i = Some c
                 \<and> mc_Properties c = Some properties
                 \<and> mc_SKU c \<bind> sku_Tier = Some tier
                 \<and> Sla (rows ! i) =
                     (if tier = ''Paid''
                      then if (\<forall>p\<in>set (AgentPoolProfiles properties). \<exists>profile zs.
                                 p = Some profile \<and> pool_AvailabilityZones profile = Some zs
                                 \<and> 2 \<le> length zs)
                           then ''99.95%'' else ''99.9%''
                      else ''None''))"
proof -
  from Review_each_cluster[OF assms] obtain clusters where
    l: "listClusters a resourceGroupName = (Some clusters, None)" and
    n: "length rows = length clusters" and
    r: "\<And>i. i < length clusters \<Longrightarrow> \<exists>c properties tier.
          clusters ! i = Some c
          \<and> mc_Properties c = Some properties
          \<and> mc_SKU c \<bind> sku_Tier = Some tier
          \<and> AvailabilityZones (rows ! i) =
              (\<forall>p\<in>set (AgentPoolProfiles properties). \<exists>profile zs.
                 p = Some profile \<and> pool_AvailabilityZones profile = Some zs
                 \<and> 2 \<le> length zs)
          \<and> Sla (rows ! i) =
              (if tier = ''Paid''
               then if AvailabilityZones (rows ! i) then ''99.95%'' else ''99.9%''
               else ''None'')"
    by blast
  have "\<exists>c properties tier.
          clusters ! i = Some c
          \<and> mc_Properties c = Some properties
          \<and> mc_SKU c \<bind> sku_Tier = Some tier
          \<and> Sla (rows ! i) =
              (if tier = ''Paid''
               then if (\<forall>p\<in>set (AgentPoolProfiles properties). \<exists>profile zs.
                          p = Some profile \<and> pool_AvailabilityZones profile = Some zs
                          \<and> 2 \<le> length zs)
                    then ''99.95%'' else ''99.9%''
               else ''None'')"
    if "i < length clusters" for i
  proof -
    from r[OF that] obtain c properties tier where
      c: "clusters ! i = Some c" and
      p: "mc_Properties c = Some properties" and
      t: "mc_SKU c \<bind> sku_Tier = Some tier" and
      az: "AvailabilityZones (rows ! i) =
             (\<forall>p\<in>set (AgentPoolProfiles properties). \<exists>profile zs.
                p = Some profile \<and> pool_AvailabilityZones profile = Some zs
                \<and> 2 \<le> length zs)" and
      sla: "Sla (rows ! i) =
             (if tier = ''Paid''
              then if AvailabilityZones (rows ! i) then ''99.95%'' else ''99.9%''
              else ''None'')"
      by blast
    from sla have "Sla (rows ! i) =
             (if tier = ''Paid''
              then if (\<forall>p\<in>set (AgentPoolProfiles properties). \<exists>profile zs.
                         p = Some profile \<and> pool_AvailabilityZones profile = Some zs
                         \<and> 2 \<le> length zs)
                   then ''99.95%'' else ''99.9%''
              else ''None'')"
      unfolding az .
    with c p t show ?thesis
      by (intro exI conjI)
  qed
  then have "\<forall>i<length clusters. \<exists>c properties tier.
          clusters ! i = Some c
          \<and> mc_Properties c = Some properties
          \<and> mc_SKU c \<bind> sku_Tier = Some tier
          \<and> Sla (rows ! i) =
              (if tier = ''Paid''
               then if (\<forall>p\<in>set (AgentPoolProfiles properties). \<exists>profile zs.
                          p = Some profile \<and> pool_AvailabilityZones profile = Some zs
                          \<and> 2 \<le> length zs)
                    then ''99.95%'' else ''99.9%''
               else ''None'')"
    by (intro allI impI)
  with l n show ?thesis
    by (intro exI[of _ clusters] conjI)
qed

theorem Review_sla_witness:
  "Review
     \<lparr> diagnosticsSettings = (\<lambda>resourceId. (True, None)),
       subscriptionId = ''sub'',
       clustersClient = (\<lambda>resourceGroupName.
         [Inr [Some \<lparr> mc_ID = Some ''id-1'', mc_Name = Some ''aks-a'', mc_Type = Some ''t'',
                      mc_SKU = Some \<lparr> sku_Tier = Some ''Paid'' \<rparr>,
                      mc_Properties = Some
                        \<lparr> AgentPoolProfiles =
                            [Some \<lparr> pool_AvailabilityZones = Some [Some ''1'', Some ''2'', Some ''3''] \<rparr>],
                          APIServerAccessProfile = Some \<lparr> EnablePrivateCluster = Some True \<rparr>,
                          AddonProfiles = Map.empty \<rparr> \<rparr>],
          Inr [Some \<lparr> mc_ID = Some ''id-2'', mc_Name = Some ''aks-b'', mc_Type = Some ''t'',
                      mc_SKU = Some \<lparr> sku_Tier = Some ''Paid'' \<rparr>,
                      mc_Properties = Some
                        \<lparr> AgentPoolProfiles = [Some \<lparr> pool_AvailabilityZones = Some [] \<rparr>],
                          APIServerAccessProfile = Some \<lparr> EnablePrivateCluster = Some False \<rparr>,
                          AddonProfiles = Map.empty \<rparr> \<rparr>,
               Some \<lparr> mc_ID = Some ''id-3'', mc_Name = Some ''c'', mc_Type = Some ''t'',
                      mc_SKU = Some \<lparr> sku_Tier = Some ''Free'' \<rparr>,
                      mc_Properties = Some
                        \<lparr> AgentPoolProfiles =
                            [Some \<lparr> pool_AvailabilityZones = Some [Some ''1'', Some ''2''] \<rparr>],
                          APIServerAccessProfile = Some \<lparr> EnablePrivateCluster = Some False \<rparr>,
                          AddonProfiles = Map.empty \<rparr> \<rparr>]]) \<rparr>
     ''rg''
   = Inr (Some
       [\<lparr> SubscriptionId = ''sub'', ResourceGroup = ''rg'', ServiceName = ''aks-a'',
          Sku = ''Paid'', Sla = ''99.95%'', Type = ''t'', AvailabilityZones = True,
          PrivateEndpoints = True, DiagnosticSettings = True, CAFNaming = True \<rparr>,
        \<lparr> SubscriptionId = ''sub'', ResourceGroup = ''rg'', ServiceName = ''aks-b'',
          Sku = ''Paid'', Sla = ''99.9%'', Type = ''t'', AvailabilityZones = False,
          PrivateEndpoints = False, DiagnosticSettings = True, CAFNaming = True \<rparr>,
        \<lparr> SubscriptionId = ''sub'', ResourceGroup = ''rg'', ServiceName = ''c'',
          Sku = ''Free'', Sla = ''None'', Type = ''t'', AvailabilityZones = True,
          PrivateEndpoints = False, DiagnosticSettings = True, CAFNaming = False \<rparr>],
      None)"
  (is ?run)
proof -
  have run: ?run
    by (simp add: Review_def listClusters_def Review_row_def HasPrefix_def)
  from Review_sla[OF run] run show ?thesis
    by blast
qed

subsection \<open>The availability zones of a cluster\<close>

text \<open>
  Claim C3, as stated, has a cluster with an empty list of agent pool profiles
  reported with \<open>AvailabilityZones = false\<close>. The loop starts from \<^verbatim>\<open>zones := true\<close>
  and only ever lowers it, so a cluster without agent pool profiles is reported
  with \<open>AvailabilityZones = true\<close> (and, on tier \<^verbatim>\<open>Paid\<close>, with the SLA \<^verbatim>\<open>99.95%\<close>).
\<close>

theorem Review_empty_profiles_counterexample:
  "Review
     \<lparr> diagnosticsSettings = (\<lambda>resourceId. (False, None)),
       subscriptionId = ''sub'',
       clustersClient = (\<lambda>resourceGroupName.
         [Inr [Some \<lparr> mc_ID = Some ''id-1'', mc_Name = Some ''aks-empty'', mc_Type = Some ''t'',
                      mc_SKU = Some \<lparr> sku_Tier = Some ''Paid'' \<rparr>,
                      mc_Properties = Some
                        \<lparr> AgentPoolProfiles = [],
                          APIServerAccessProfile = Some \<lparr> EnablePrivateCluster = Some False \<rparr>,
                          AddonProfiles = Map.empty \<rparr> \<rparr>]]) \<rparr>
     ''rg''
   = Inr (Some
       [\<lparr> SubscriptionId = ''sub'', ResourceGroup = ''rg'', ServiceName = ''aks-empty'',
          Sku = ''Paid'', Sla = ''99.95%'', Type = ''t'', AvailabilityZones = True,
          PrivateEndpoints = False, DiagnosticSettings = False, CAFNaming = True \<rparr>],
      None)"
  by (simp add: Review_def listClusters_def Review_row_def HasPrefix_def)

text \<open>
  Claim C3, amended. Whenever \<^verbatim>\<open>Review\<close> hands rows back, the row of a cluster
  has \<open>AvailabilityZones\<close> true if and only if every agent pool profile of the
  cluster has a list of availability zones with at least two entries. So one
  profile whose zone list is absent, or has at most one entry, makes it false,
  and a cluster with no agent pool profile at all has it true.
\<close>

theorem Review_availability_zones:
  assumes "Review a resourceGroupName = Inr (Some rows, None)"
  shows "\<exists>clusters. listClusters a resourceGroupName = (Some clusters, None)
           \<and> length rows = length clusters
           \<and> (\<forall>i<length clusters. \<exists>c properties.
                 clusters ! i = Some c
                 \<and> mc_Properties c = Some properties
                 \<and> (AvailabilityZones (rows ! i) \<longleftrightarrow>
                      (\<forall>p\<in>set (AgentPoolProfiles properties). \<exists>profile zs.
                         p = Some profile \<and> pool_AvailabilityZones profile = Some zs
                         \<and> 2 \<le> length zs)))"
proof -
  from Review_each_cluster[OF assms] obtain clusters where
    l: "listClusters a resourceGroupName = (Some clusters, None)" and
    n: "length rows = length clusters" and
    r: "\<And>i. i < length clusters \<Longrightarrow> \<exists>c properties tier.
          clusters ! i = Some c
          \<and> mc_Properties c = Some properties
          \<and> mc_SKU c \<bind> sku_Tier = Some tier
          \<and> AvailabilityZones (rows ! i) =
              (\<forall>p\<in>set (AgentPoolProfiles properties). \<exists>profile zs.
                 p = Some profile \<and> pool_AvailabilityZones profile = Some zs
                 \<and> 2 \<le> length zs)
          \<and> Sla (rows ! i) =
              (if tier = ''Paid''
               then if AvailabilityZones (rows ! i) then ''99.95%'' else ''99.9%''
               else ''None'')"
    by blast
  have "\<exists>c properties.
          clusters ! i = Some c
          \<and> mc_Properties c = Some properties
          \<and> (AvailabilityZones (rows ! i) \<longleftrightarrow>
               (\<forall>p\<in>set (AgentPoolProfiles properties). \<exists>profile zs.
                  p = Some profile \<and> pool_AvailabilityZones profile = Some zs
                  \<and> 2 \<le> length zs))"
    if "i < length clusters" for i
  proof -
    from r[OF that] obtain c properties where
      "clusters ! i = Some c" "mc_Properties c = Some properties"
      "AvailabilityZones (rows ! i) =
             (\<forall>p\<in>set (AgentPoolProfiles properties). \<exists>profile zs.
                p = Some profile \<and> pool_AvailabilityZones profile = Some zs
                \<and> 2 \<le> length zs)"
      by blast
    then show ?thesis
      by (intro exI conjI)
  qed
  then have "\<forall>i<length clusters. \<exists>c properties.
          clusters ! i = Some c
          \<and> mc_Properties c = Some properties
          \<and> (AvailabilityZones (rows ! i) \<longleftrightarrow>
               (\<forall>p\<in>set (AgentPoolProfiles properties). \<exists>profile zs.
                  p = Some profile \<and> pool_AvailabilityZones profile = Some zs
                  \<and> 2 \<le> length zs))"
    by (intro allI impI)
  with l n show ?thesis
    by (intro exI[of _ clusters] conjI)
qed

theorem Review_availability_zones_witness:
  "Review
     \<lparr> diagnosticsSettings = (\<lambda>resourceId. (False, None)),
       subscriptionId = ''sub'',
       clustersClient = (\<lambda>resourceGroupName.
         [Inr [Some \<lparr> mc_ID = Some ''id-1'', mc_Name = Some ''aks-two'', mc_Type = Some ''t'',
                      mc_SKU = Some \<lparr> sku_Tier = Some ''Free'' \<rparr>,
                      mc_Properties = Some
                        \<lparr> AgentPoolProfiles =
                            [Some \<lparr> pool_AvailabilityZones = Some [Some ''1'', Some ''2''] \<rparr>,
                             Some \<lparr> pool_AvailabilityZones = Some [Some ''2'', Some ''3''] \<rparr>],
                          APIServerAccessProfile = Some \<lparr> EnablePrivateCluster = Some True \<rparr>,
                          AddonProfiles = Map.empty \<rparr> \<rparr>,
               Some \<lparr> mc_ID = Some ''id-2'', mc_Name = Some ''aks-one'', mc_Type = Some ''t'',
                      mc_SKU = Some \<lparr> sku_Tier = Some ''Free'' \<rparr>,
                      mc_Properties = Some
                        \<lparr> AgentPoolProfiles =
                            [Some \<lparr> pool_AvailabilityZones = Some [Some ''1'', Some ''2''] \<rparr>,
                             Some \<lparr> pool_AvailabilityZones = Some [Some ''1''] \<rparr>],
                          APIServerAccessProfile = Some \<lparr> EnablePrivateCluster = Some True \<rparr>,
                          AddonProfiles = Map.empty \<rparr> \<rparr>,
               Some \<lparr> mc_ID = Some ''id-3'', mc_Name = Some ''aks-nil'', mc_Type = Some ''t'',
                      mc_SKU = Some \<lparr> sku_Tier = Some ''Free'' \<rparr>,
                      mc_Properties = Some
                        \<lparr> AgentPoolProfiles = [Some \<lparr> pool_AvailabilityZones = None \<rparr>],
                          APIServerAccessProfile = Some \<lparr> EnablePrivateCluster = Some True \<rparr>,
                          AddonProfiles = Map.empty \<rparr> \<rparr>]]) \<rparr>
     ''rg''
   = Inr (Some
       [\<lparr> SubscriptionId = ''sub'', ResourceGroup = ''rg'', ServiceName = ''aks-two'',
          Sku = ''Free'', Sla = ''None'', Type = ''t'', AvailabilityZones = True,
          PrivateEndpoints = True, DiagnosticSettings = False, CAFNaming = True \<rparr>,
        \<lparr> SubscriptionId = ''sub'', ResourceGroup = ''rg'', ServiceName = ''aks-one'',
          Sku = ''Free'', Sla = ''None'', Type = ''t'', AvailabilityZones = False,
          PrivateEndpoints = True, DiagnosticSettings = False, CAFNaming = True \<rparr>,
        \<lparr> SubscriptionId = ''sub'', ResourceGroup = ''rg'', ServiceName = ''aks-nil'',
          Sku = ''Free'', Sla = ''None'', Type = ''t'', AvailabilityZones = False,
          PrivateEndpoints = True, DiagnosticSettings = False, CAFNaming = True \<rparr>],
      None)"
  (is ?run)
proof -
  have run: ?run
    by (simp add: Review_def listClusters_def Review_row_def HasPrefix_def)
  from Review_availability_zones[OF run] run show ?thesis
    by blast
qed

subsection \<open>Errors while listing\<close>

lemma Review_listing_failed:
  assumes "clustersClient a rg = pre @ Inl err # post" and "\<forall>p\<in>set pre. \<exists>v. p = Inr v"
  shows "Review a rg = Inr (None, Some err)"
  using listClusters_loop_first_error[OF assms(2), of err post "[]"] assms(1)
  by (simp add: Review_def listClusters_def)

lemma Review_error_no_rows:
  assumes "Review a rg = Inr (rows, Some e)"
  shows "rows = None"
proof (cases "listClusters a rg")
  case (Pair clusters err)
  show ?thesis
  proof (cases err)
    case None
    with Pair assms show ?thesis
      by (auto simp: Review_def dest: Review_loop_error)
  next
    case (Some e')
    with Pair assms show ?thesis
      by (simp add: Review_def)
  qed
qed

text \<open>
  Claim C7. If fetching any page of the listing fails, \<^verbatim>\<open>Review\<close> hands back the
  nil slice together with the error of the first failing page, however many
  pages (and clusters) were fetched before it. And whenever \<^verbatim>\<open>Review\<close> hands an
  error back, for whatever reason, the rows beside it are the nil slice: no row
  is ever returned alongside an error.
\<close>

theorem Review_listing_error:
  "(Inl e \<in> set (clustersClient a resourceGroupName) \<longrightarrow>
      (\<exists>pre err post.
         clustersClient a resourceGroupName = pre @ Inl err # post
         \<and> (\<forall>p\<in>set pre. \<exists>v. p = Inr v)
         \<and> Review a resourceGroupName = Inr (None, Some err)))
   \<and> (Review a resourceGroupName = Inr (rows, Some e') \<longrightarrow> rows = None)"
proof (intro conjI impI)
  assume "Inl e \<in> set (clustersClient a resourceGroupName)"
  then have "\<exists>p\<in>set (clustersClient a resourceGroupName). isl p"
    by (rule bexI[rotated]) simp
  from split_list_first_prop[OF this] obtain pre p post where
    s: "clustersClient a resourceGroupName = pre @ p # post" and
    p: "isl p" and
    pre: "\<forall>q\<in>set pre. \<not> isl q"
    by blast
  from p obtain err where err: "p = Inl err"
    by (cases p) auto
  from pre have pre': "\<forall>q\<in>set pre. \<exists>v. q = Inr v"
    by (metis sum.collapse(2))
  from s err have "clustersClient a resourceGroupName = pre @ Inl err # post"
    by simp
  with pre' Review_listing_failed[OF this pre']
  show "\<exists>pre err post.
         clustersClient a resourceGroupName = pre @ Inl err # post
         \<and> (\<forall>p\<in>set pre. \<exists>v. p = Inr v)
         \<and> Review a resourceGroupName = Inr (None, Some err)"
    by (intro exI[of _ pre] exI[of _ err] exI[of _ post] conjI)
next
  assume "Review a resourceGroupName = Inr (rows, Some e')"
  then show "rows = None"
    by (rule Review_error_no_rows)
qed

theorem Review_listing_error_witness:
  "Inl ''page 2 failed'' \<in> set
     (clustersClient
        \<lparr> diagnosticsSettings = (\<lambda>resourceId. (True, None)),
          subscriptionId = ''sub'',
          clustersClient = (\<lambda>resourceGroupName.
            [Inr [Some \<lparr> mc_ID = Some ''id-1'', mc_Name = Some ''aks-a'', mc_Type = Some ''t'',
                         mc_SKU = Some \<lparr> sku_Tier = Some ''Paid'' \<rparr>,
                         mc_Properties = Some
                           \<lparr> AgentPoolProfiles = [],
                             APIServerAccessProfile = Some \<lparr> EnablePrivateCluster = Some True \<rparr>,
                             AddonProfiles = Map.empty \<rparr> \<rparr>],
             Inl ''page 2 failed'',
             Inr []]) \<rparr>
        ''rg'')
   \<and> Review
       \<lparr> diagnosticsSettings = (\<lambda>resourceId. (True, None)),
         subscriptionId = ''sub'',
         clustersClient = (\<lambda>resourceGroupName.
           [Inr [Some \<lparr> mc_ID = Some ''id-1'', mc_Name = Some ''aks-a'', mc_Type = Some ''t'',
                        mc_SKU = Some \<lparr> sku_Tier = Some ''Paid'' \<rparr>,
                        mc_Properties = Some
                          \<lparr> AgentPoolProfiles = [],
                            APIServerAccessProfile = Some \<lparr> EnablePrivateCluster = Some True \<rparr>,
                            AddonProfiles = Map.empty \<rparr> \<rparr>],
            Inl ''page 2 failed'',
            Inr []]) \<rparr>
       ''rg''
     = Inr (None, Some ''page 2 failed'')"
  (is "?failing \<and> ?run")
proof -
  let ?a = "\<lparr> diagnosticsSettings = (\<lambda>resourceId. (True, None)),
         subscriptionId = ''sub'',
         clustersClient = (\<lambda>resourceGroupName.
           [Inr [Some \<lparr> mc_ID = Some ''id-1'', mc_Name = Some ''aks-a'', mc_Type = Some ''t'',
                        mc_SKU = Some \<lparr> sku_Tier = Some ''Paid'' \<rparr>,
                        mc_Properties = Some
                          \<lparr> AgentPoolProfiles = [],
                            APIServerAccessProfile = Some \<lparr> EnablePrivateCluster = Some True \<rparr>,
                            AddonProfiles = Map.empty \<rparr> \<rparr>],
            Inl ''page 2 failed'',
            Inr []]) \<rparr>"
  have failing: ?failing
    by simp
  have run: ?run
    by (simp add: Review_def listClusters_def)
  from Review_listing_error[where e = "''page 2 failed''" and a = ?a
      and resourceGroupName = "''rg''" and rows = None and e' = "''page 2 failed''"]
    failing run
  show ?thesis
    by blast
qed

section \<open>Properties of the rules\<close>

subsection \<open>SLA rules\<close>

text \<open>
  Claim C2, as stated, has an App Service plan of SKU tier \<^verbatim>\<open>Basic\<close> evaluated by
  plan-003 to the SLA \<^verbatim>\<open>None\<close>. The rule tests the tier against \<^verbatim>\<open>Free\<close> and
  \<^verbatim>\<open>Shared\<close> only, so a \<^verbatim>\<open>Basic\<close> plan gets \<^verbatim>\<open>99.95%\<close> and is not broken.
\<close>

theorem plan_003_Basic_counterexample:
  "plan_003
     (PlanPtr (Some \<lparr> plan_ID = Some ''id'', plan_Name = Some ''asp-a'',
                       plan_SKU = Some \<lparr> plan_Tier = Some ''Basic'' \<rparr>,
                       plan_Properties = None \<rparr>))
     (Some \<lparr> sc_PrivateEndpoints = Map.empty \<rparr>)
   = Inr (False, ''99.95%'')"
  by (simp add: plan_003_def)

text \<open>
  Claim C2, amended. For every App Service plan, plan-003 yields the SLA
  \<^verbatim>\<open>None\<close>, and reports broken, exactly when the SKU tier is \<^verbatim>\<open>Free\<close> or
  \<^verbatim>\<open>Shared\<close>; every other tier, \<^verbatim>\<open>Basic\<close> included, yields \<^verbatim>\<open>99.95%\<close> and is not
  broken. And each SLA rule (plan-003, evh-003, cae-003, sigr-003) reports broken
  exactly when the SLA it returns is \<^verbatim>\<open>None\<close>.
\<close>

theorem SLA_rules_tiers:
  "(plan_SKU plan = Some sku \<and> plan_Tier sku = Some tier \<longrightarrow>
      plan_003 (PlanPtr (Some plan)) scanContext =
        Inr (if tier = ''Free'' \<or> tier = ''Shared'' then (True, ''None'') else (False, ''99.95%'')))
   \<and> (\<forall>rule\<in>{plan_003, evh_003, cae_003, sigr_003}.
        rule target scanContext = Inr (broken, sla) \<longrightarrow> (broken \<longleftrightarrow> sla = ''None''))"
proof (intro conjI impI ballI)
  assume "plan_SKU plan = Some sku \<and> plan_Tier sku = Some tier"
  then show "plan_003 (PlanPtr (Some plan)) scanContext =
        Inr (if tier = ''Free'' \<or> tier = ''Shared'' then (True, ''None'') else (False, ''99.95%''))"
    by (simp add: plan_003_def)
next
  fix rule
  assume "rule \<in> {plan_003, evh_003, cae_003, sigr_003}"
    and "rule target scanContext = Inr (broken, sla)"
  then show "broken \<longleftrightarrow> sla = ''None''"
    by (auto simp: plan_003_def evh_003_def cae_003_def sigr_003_def Let_def
             split: option.splits if_splits)
qed

theorem SLA_rules_tiers_witness:
  "plan_003
     (PlanPtr (Some \<lparr> plan_ID = None, plan_Name = None,
                       plan_SKU = Some \<lparr> plan_Tier = Some ''Shared'' \<rparr>,
                       plan_Properties = None \<rparr>))
     None
   = Inr (True, ''None'')
   \<and> plan_003 \<in> {plan_003, evh_003, cae_003, sigr_003}
   \<and> (True \<longleftrightarrow> ''None'' = ''None'')"
  (is "?run \<and> ?rule \<and> ?iff")
proof -
  have run: ?run
    by (simp add: plan_003_def)
  have rule: ?rule
    by simp
  from SLA_rules_tiers[of
      "\<lparr> plan_ID = None, plan_Name = None, plan_SKU = Some \<lparr> plan_Tier = Some ''Shared'' \<rparr>,
         plan_Properties = None \<rparr>"
      "\<lparr> plan_Tier = Some ''Shared'' \<rparr>" "''Shared''" None
      "PlanPtr (Some \<lparr> plan_ID = None, plan_Name = None,
                        plan_SKU = Some \<lparr> plan_Tier = Some ''Shared'' \<rparr>,
                        plan_Properties = None \<rparr>)"
      True "''None''"]
    run rule
  show ?thesis
    by simp
qed

text \<open>
  Claim C10. The SLA rules of the Event Hub, Container Apps and SignalR rule sets
  never report a resource as broken, whatever the target and the scan context
  are: cae-003 and sigr-003 return \<open>false\<close> with a fixed SLA, and evh-003, which
  reads the namespace's SKU name, never returns \<open>true\<close>, and on a namespace that
  has a SKU name returns \<open>false\<close> with \<^verbatim>\<open>99.95%\<close> or \<^verbatim>\<open>99.99%\<close>.
\<close>

theorem SLA_rules_never_broken:
  "cae_003 target scanContext = Inr (False, ''99.95%'')
   \<and> sigr_003 target scanContext = Inr (False, ''99.9%'')
   \<and> (\<forall>sla. evh_003 target scanContext \<noteq> Inr (True, sla))
   \<and> (eh_SKU ns = Some sku \<and> ehsku_Name sku = Some name \<longrightarrow>
        (\<exists>sla. evh_003 (EHNamespacePtr (Some ns)) scanContext = Inr (False, sla)
               \<and> sla \<in> {''99.95%'', ''99.99%''}))"
  by (auto simp: cae_003_def sigr_003_def evh_003_def split: option.splits)

theorem SLA_rules_never_broken_witness:
  "cae_003 OtherTarget None = Inr (False, ''99.95%'')
   \<and> sigr_003 OtherTarget None = Inr (False, ''99.9%'')
   \<and> evh_003
     (EHNamespacePtr (Some \<lparr> eh_ID = None, eh_Name = None,
                              eh_SKU = Some \<lparr> ehsku_Name = Some ''Premium'' \<rparr>,
                              eh_Properties = None \<rparr>))
     None
   = Inr (False, ''99.99%'')
   \<and> evh_003
     (EHNamespacePtr (Some \<lparr> eh_ID = None, eh_Name = None,
                              eh_SKU = Some \<lparr> ehsku_Name = Some ''Basic'' \<rparr>,
                              eh_Properties = None \<rparr>))
     None
   = Inr (False, ''99.95%'')"
  (is "?cae \<and> ?sigr \<and> ?premium \<and> ?basic")
proof -
  have premium: ?premium
    by (simp add: evh_003_def HasPrefix_def)
  have basic: ?basic
    by (simp add: evh_003_def HasPrefix_def)
  from SLA_rules_never_broken[where target = OtherTarget and scanContext = None
      and ns = "\<lparr> eh_ID = None, eh_Name = None,
                  eh_SKU = Some \<lparr> ehsku_Name = Some ''Premium'' \<rparr>, eh_Properties = None \<rparr>"
      and sku = "\<lparr> ehsku_Name = Some ''Premium'' \<rparr>" and name = "''Premium''"]
    premium basic
  show ?thesis
    by simp
qed

subsection \<open>Flag rules\<close>

text \<open>
  Claim C4. For every Event Hub namespace (with its properties there), evh-008
  reports broken exactly when the \<^verbatim>\<open>DisableLocalAuth\<close> flag is present and
  false; with the flag absent, or present and true, it reports not broken. The
  value is the empty string.
\<close>

theorem evh_008_literal:
  assumes "eh_Properties ns = Some properties"
  shows "evh_008 (EHNamespacePtr (Some ns)) scanContext =
           Inr (eh_DisableLocalAuth properties = Some False, '''')"
  using assms by (auto simp: evh_008_def)

theorem evh_008_literal_witness:
  "evh_008
     (EHNamespacePtr (Some \<lparr> eh_ID = None, eh_Name = None, eh_SKU = None,
        eh_Properties = Some \<lparr> eh_ZoneRedundant = None, eh_DisableLocalAuth = Some False \<rparr> \<rparr>))
     None
   = Inr (True, '''')
   \<and> evh_008
     (EHNamespacePtr (Some \<lparr> eh_ID = None, eh_Name = None, eh_SKU = None,
        eh_Properties = Some \<lparr> eh_ZoneRedundant = None, eh_DisableLocalAuth = None \<rparr> \<rparr>))
     None
   = Inr (False, '''')
   \<and> evh_008
     (EHNamespacePtr (Some \<lparr> eh_ID = None, eh_Name = None, eh_SKU = None,
        eh_Properties = Some \<lparr> eh_ZoneRedundant = None, eh_DisableLocalAuth = Some True \<rparr> \<rparr>))
     None
   = Inr (False, '''')"
  using
    evh_008_literal[of
      "\<lparr> eh_ID = None, eh_Name = None, eh_SKU = None,
         eh_Properties = Some \<lparr> eh_ZoneRedundant = None, eh_DisableLocalAuth = Some False \<rparr> \<rparr>"
      "\<lparr> eh_ZoneRedundant = None, eh_DisableLocalAuth = Some False \<rparr>" None]
    evh_008_literal[of
      "\<lparr> eh_ID = None, eh_Name = None, eh_SKU = None,
         eh_Properties = Some \<lparr> eh_ZoneRedundant = None, eh_DisableLocalAuth = None \<rparr> \<rparr>"
      "\<lparr> eh_ZoneRedundant = None, eh_DisableLocalAuth = None \<rparr>" None]
    evh_008_literal[of
      "\<lparr> eh_ID = None, eh_Name = None, eh_SKU = None,
         eh_Properties = Some \<lparr> eh_ZoneRedundant = None, eh_DisableLocalAuth = Some True \<rparr> \<rparr>"
      "\<lparr> eh_ZoneRedundant = None, eh_DisableLocalAuth = Some True \<rparr>" None]
  by simp

text \<open>
  Claim C5 at its failing inputs. On a site whose \<^verbatim>\<open>HTTPSOnly\<close> is nil, app-007
  dereferences the nil pointer and panics, where func-007, on the same site,
  guards the dereference and reports broken; on a plan whose \<^verbatim>\<open>ZoneRedundant\<close> is
  nil, plan-002 panics likewise.
\<close>

theorem nil_flag_panics:
  "app_007
     (SitePtr (Some \<lparr> site_ID = Some ''id'', site_Name = Some ''app-a'',
                       site_Properties = Some \<lparr> HTTPSOnly = None \<rparr> \<rparr>))
     (Some \<lparr> sc_PrivateEndpoints = Map.empty \<rparr>)
   = Inl Panic
   \<and> func_007
     (SitePtr (Some \<lparr> site_ID = Some ''id'', site_Name = Some ''app-a'',
                       site_Properties = Some \<lparr> HTTPSOnly = None \<rparr> \<rparr>))
     (Some \<lparr> sc_PrivateEndpoints = Map.empty \<rparr>)
   = Inr (True, '''')
   \<and> plan_002
     (PlanPtr (Some \<lparr> plan_ID = Some ''id'', plan_Name = Some ''asp-a'',
                       plan_SKU = None,
                       plan_Properties = Some \<lparr> plan_ZoneRedundant = None \<rparr> \<rparr>))
     (Some \<lparr> sc_PrivateEndpoints = Map.empty \<rparr>)
   = Inl Panic"
  by (simp add: app_007_def func_007_def plan_002_def)

subsection \<open>Addon profiles\<close>

text \<open>
  Claim C6. For every AKS cluster (with its properties there) whose map of addon
  profiles has no \<^verbatim>\<open>httpApplicationRouting\<close> key, aks-010 reports not broken; for
  every one whose map has no \<^verbatim>\<open>omsagent\<close> key, aks-011 reports broken.
\<close>

theorem addon_absent_asymmetry:
  assumes "mc_Properties c = Some properties"
  shows "(AddonProfiles properties ''httpApplicationRouting'' = None \<longrightarrow>
            aks_010 (ManagedClusterPtr (Some c)) scanContext = Inr (False, ''''))
         \<and> (AddonProfiles properties ''omsagent'' = None \<longrightarrow>
            aks_011 (ManagedClusterPtr (Some c)) scanContext = Inr (True, ''''))"
  using assms by (simp add: aks_010_def aks_011_def)

theorem addon_absent_asymmetry_witness:
  "aks_010
     (ManagedClusterPtr (Some \<lparr> mc_ID = None, mc_Name = None, mc_Type = None, mc_SKU = None,
        mc_Properties = Some \<lparr> AgentPoolProfiles = [], APIServerAccessProfile = None,
                                AddonProfiles = Map.empty \<rparr> \<rparr>))
     (Some \<lparr> sc_PrivateEndpoints = Map.empty \<rparr>)
   = Inr (False, '''')
   \<and> aks_011
     (ManagedClusterPtr (Some \<lparr> mc_ID = None, mc_Name = None, mc_Type = None, mc_SKU = None,
        mc_Properties = Some \<lparr> AgentPoolProfiles = [], APIServerAccessProfile = None,
                                AddonProfiles = Map.empty \<rparr> \<rparr>))
     (Some \<lparr> sc_PrivateEndpoints = Map.empty \<rparr>)
   = Inr (True, '''')"
  using addon_absent_asymmetry[of
      "\<lparr> mc_ID = None, mc_Name = None, mc_Type = None, mc_SKU = None,
         mc_Properties = Some \<lparr> AgentPoolProfiles = [], APIServerAccessProfile = None,
                                 AddonProfiles = Map.empty \<rparr> \<rparr>"
      "\<lparr> AgentPoolProfiles = [], APIServerAccessProfile = None, AddonProfiles = Map.empty \<rparr>"
      "Some \<lparr> sc_PrivateEndpoints = Map.empty \<rparr>"]
  by simp

subsection \<open>Errors of the diagnostics lookup\<close>

lemma checkDiagnostics_error:
  assumes "HasDiagnostics service_ID = (hasDiagnostics, Some err)"
  shows "checkDiagnostics HasDiagnostics service_ID service_Name =
           Inl (case service_Name of None \<Rightarrow> Panic | Some name \<Rightarrow> Fatal (Fatalf_message name err))"
  using assms by (simp add: checkDiagnostics_def split: option.splits)

lemma Review_diagnostics_failed:
  assumes "listClusters a rg = (Some (pre @ Some c # post), None)"
    and "Review_loop a rg pre [] = Inr (Some rows, None)"
    and "mc_ID c = Some service_ID"
    and "diagnosticsSettings a service_ID = (hasDiagnostics, Some err)"
  shows "Review a rg = Inr (None, Some err)"
proof -
  from assms(1) have "Review a rg = Review_loop a rg (pre @ Some c # post) []"
    by (simp add: Review_def)
  also from assms(2) have "\<dots> = Review_loop a rg (Some c # post) rows"
    by (rule Review_loop_append)
  also from assms(3,4) have "\<dots> = Inr (None, Some err)"
    by simp
  finally show ?thesis .
qed

text \<open>
  Claim C8, as stated, has every error of the diagnostics lookup end the process
  with a log line. \<^verbatim>\<open>AKSAnalyzer.Review\<close> does not: on an error of the lookup it
  executes \<^verbatim>\<open>return nil, err\<close>, an ordinary return that hands the error to its
  caller and neither logs nor exits. Here the lookup fails on the second of two
  clusters.
\<close>

theorem Review_diagnostics_error_counterexample:
  "Review
     \<lparr> diagnosticsSettings =
         (\<lambda>resourceId. if resourceId = ''id-2'' then (False, Some ''timeout'') else (True, None)),
       subscriptionId = ''sub'',
       clustersClient = (\<lambda>resourceGroupName.
         [Inr [Some \<lparr> mc_ID = Some ''id-1'', mc_Name = Some ''aks-a'', mc_Type = Some ''t'',
                      mc_SKU = Some \<lparr> sku_Tier = Some ''Paid'' \<rparr>,
                      mc_Properties = Some
                        \<lparr> AgentPoolProfiles = [],
                          APIServerAccessProfile = Some \<lparr> EnablePrivateCluster = Some True \<rparr>,
                          AddonProfiles = Map.empty \<rparr> \<rparr>,
               Some \<lparr> mc_ID = Some ''id-2'', mc_Name = Some ''aks-b'', mc_Type = Some ''t'',
                      mc_SKU = Some \<lparr> sku_Tier = Some ''Paid'' \<rparr>,
                      mc_Properties = Some
                        \<lparr> AgentPoolProfiles = [],
                          APIServerAccessProfile = Some \<lparr> EnablePrivateCluster = Some True \<rparr>,
                          AddonProfiles = Map.empty \<rparr> \<rparr>]]) \<rparr>
     ''rg''
   = Inr (None, Some ''timeout'')"
  by (simp add: Review_def listClusters_def Review_row_def HasPrefix_def)

text \<open>
  Claim C8, amended. Let the diagnostics lookup answer the resource's ID with an
  error. Inside the \<^verbatim>\<open>DiagnosticSettings\<close> rule of a rule set (evh-001, cae-001,
  plan-001, app-001, func-001, sigr-001), on a resource that has a name, the
  process is ended by \<^verbatim>\<open>log.Fatalf\<close> with the message naming the resource and the
  error, and no pair is returned. Inside \<^verbatim>\<open>AKSAnalyzer.Review\<close>, which reaches
  such a cluster after having reviewed the clusters before it, the error is
  returned to the caller together with the nil slice. Either way no row is
  produced for any resource of the review, and none with a degraded entry.
\<close>

theorem diagnostics_error_outcomes:
  assumes "HasDiagnostics service_ID = (hasDiagnostics, Some err)"
  shows
    "(eh_ID ns = Some service_ID \<and> eh_Name ns = Some name \<longrightarrow>
        evh_001 HasDiagnostics (EHNamespacePtr (Some ns)) scanContext =
          Inl (Fatal (Fatalf_message name err)))
     \<and> (cae_ID env = Some service_ID \<and> cae_Name env = Some name \<longrightarrow>
        cae_001 HasDiagnostics (ManagedEnvironmentPtr (Some env)) scanContext =
          Inl (Fatal (Fatalf_message name err)))
     \<and> (plan_ID plan = Some service_ID \<and> plan_Name plan = Some name \<longrightarrow>
        plan_001 HasDiagnostics (PlanPtr (Some plan)) scanContext =
          Inl (Fatal (Fatalf_message name err)))
     \<and> (site_ID site = Some service_ID \<and> site_Name site = Some name \<longrightarrow>
        app_001 HasDiagnostics (SitePtr (Some site)) scanContext =
          Inl (Fatal (Fatalf_message name err))
        \<and> func_001 HasDiagnostics (SitePtr (Some site)) scanContext =
          Inl (Fatal (Fatalf_message name err)))
     \<and> (sigr_ID info = Some service_ID \<and> sigr_Name info = Some name \<longrightarrow>
        sigr_001 HasDiagnostics (ResourceInfoPtr (Some info)) scanContext =
          Inl (Fatal (Fatalf_message name err)))
     \<and> (diagnosticsSettings a = HasDiagnostics
          \<and> listClusters a resourceGroupName = (Some (pre @ Some c # post), None)
          \<and> Review_loop a resourceGroupName pre [] = Inr (Some rows, None)
          \<and> mc_ID c = Some service_ID \<longrightarrow>
        Review a resourceGroupName = Inr (None, Some err))"
proof (intro conjI impI)
  assume "eh_ID ns = Some service_ID \<and> eh_Name ns = Some name"
  then show "evh_001 HasDiagnostics (EHNamespacePtr (Some ns)) scanContext =
      Inl (Fatal (Fatalf_message name err))"
    by (simp add: evh_001_def
          checkDiagnostics_error[of HasDiagnostics service_ID hasDiagnostics err, OF assms])
next
  assume "cae_ID env = Some service_ID \<and> cae_Name env = Some name"
  then show "cae_001 HasDiagnostics (ManagedEnvironmentPtr (Some env)) scanContext =
      Inl (Fatal (Fatalf_message name err))"
    by (simp add: cae_001_def
          checkDiagnostics_error[of HasDiagnostics service_ID hasDiagnostics err, OF assms])
next
  assume "plan_ID plan = Some service_ID \<and> plan_Name plan = Some name"
  then show "plan_001 HasDiagnostics (PlanPtr (Some plan)) scanContext =
      Inl (Fatal (Fatalf_message name err))"
    by (simp add: plan_001_def
          checkDiagnostics_error[of HasDiagnostics service_ID hasDiagnostics err, OF assms])
next
  assume "site_ID site = Some service_ID \<and> site_Name site = Some name"
  then show "app_001 HasDiagnostics (SitePtr (Some site)) scanContext =
      Inl (Fatal (Fatalf_message name err))"
    by (simp add: app_001_def
          checkDiagnostics_error[of HasDiagnostics service_ID hasDiagnostics err, OF assms])
next
  assume "site_ID site = Some service_ID \<and> site_Name site = Some name"
  then show "func_001 HasDiagnostics (SitePtr (Some site)) scanContext =
      Inl (Fatal (Fatalf_message name err))"
    by (simp add: func_001_def
          checkDiagnostics_error[of HasDiagnostics service_ID hasDiagnostics err, OF assms])
next
  assume "sigr_ID info = Some service_ID \<and> sigr_Name info = Some name"
  then show "sigr_001 HasDiagnostics (ResourceInfoPtr (Some info)) scanContext =
      Inl (Fatal (Fatalf_message name err))"
    by (simp add: sigr_001_def
          checkDiagnostics_error[of HasDiagnostics service_ID hasDiagnostics err, OF assms])
next
  assume "diagnosticsSettings a = HasDiagnostics
          \<and> listClusters a resourceGroupName = (Some (pre @ Some c # post), None)
          \<and> Review_loop a resourceGroupName pre [] = Inr (Some rows, None)
          \<and> mc_ID c = Some service_ID"
  with assms show "Review a resourceGroupName = Inr (None, Some err)"
    by (intro Review_diagnostics_failed[of a resourceGroupName pre c post rows service_ID
          hasDiagnostics err]) simp_all
qed

theorem diagnostics_error_outcomes_witness:
  "evh_001 (\<lambda>resourceId. if resourceId = ''id-2'' then (False, Some ''timeout'') else (True, None))
     (EHNamespacePtr (Some \<lparr> eh_ID = Some ''id-2'', eh_Name = Some ''evh-a'',
                              eh_SKU = None, eh_Properties = None \<rparr>))
     (Some \<lparr> sc_PrivateEndpoints = Map.empty \<rparr>)
   = Inl (Fatal ''Error checking diagnostic settings for service evh-a: timeout'')
   \<and> Review
       \<lparr> diagnosticsSettings =
           (\<lambda>resourceId. if resourceId = ''id-2'' then (False, Some ''timeout'') else (True, None)),
         subscriptionId = ''sub'',
         clustersClient = (\<lambda>resourceGroupName.
           [Inr [Some \<lparr> mc_ID = Some ''id-1'', mc_Name = Some ''aks-a'', mc_Type = Some ''t'',
                        mc_SKU = Some \<lparr> sku_Tier = Some ''Paid'' \<rparr>,
                        mc_Properties = Some
                          \<lparr> AgentPoolProfiles = [],
                            APIServerAccessProfile = Some \<lparr> EnablePrivateCluster = Some True \<rparr>,
                            AddonProfiles = Map.empty \<rparr> \<rparr>,
                 Some \<lparr> mc_ID = Some ''id-2'', mc_Name = Some ''aks-b'', mc_Type = Some ''t'',
                        mc_SKU = None, mc_Properties = None \<rparr>]]) \<rparr>
       ''rg''
     = Inr (None, Some ''timeout'')"
  (is "?rule \<and> ?review")
proof -
  let ?H = "\<lambda>resourceId. if resourceId = ''id-2'' then (False, Some ''timeout'') else (True, None)"
  let ?c1 = "\<lparr> mc_ID = Some ''id-1'', mc_Name = Some ''aks-a'', mc_Type = Some ''t'',
               mc_SKU = Some \<lparr> sku_Tier = Some ''Paid'' \<rparr>,
               mc_Properties = Some
                 \<lparr> AgentPoolProfiles = [],
                   APIServerAccessProfile = Some \<lparr> EnablePrivateCluster = Some True \<rparr>,
                   AddonProfiles = Map.empty \<rparr> \<rparr>"
  let ?c2 = "\<lparr> mc_ID = Some ''id-2'', mc_Name = Some ''aks-b'', mc_Type = Some ''t'',
               mc_SKU = None, mc_Properties = None \<rparr>"
  let ?a = "\<lparr> diagnosticsSettings = ?H, subscriptionId = ''sub'',
              clustersClient = (\<lambda>resourceGroupName. [Inr [Some ?c1, Some ?c2]]) \<rparr>"
  let ?row1 = "\<lparr> SubscriptionId = ''sub'', ResourceGroup = ''rg'', ServiceName = ''aks-a'',
          Sku = ''Paid'', Sla = ''99.95%'', Type = ''t'', AvailabilityZones = True,
          PrivateEndpoints = True, DiagnosticSettings = True, CAFNaming = True \<rparr>"
  have lookup: "?H ''id-2'' = (False, Some ''timeout'')"
    by simp
  have listing: "listClusters ?a ''rg'' = (Some ([Some ?c1] @ Some ?c2 # []), None)"
    by (simp add: listClusters_def)
  have before: "Review_loop ?a ''rg'' [Some ?c1] [] = Inr (Some [?row1], None)"
    by (simp add: Review_row_def HasPrefix_def)
  from diagnostics_error_outcomes[where HasDiagnostics = ?H and service_ID = "''id-2''"
      and hasDiagnostics = False and err = "''timeout''"
      and ns = "\<lparr> eh_ID = Some ''id-2'', eh_Name = Some ''evh-a'', eh_SKU = None,
                  eh_Properties = None \<rparr>"
      and name = "''evh-a''"
      and scanContext = "Some \<lparr> sc_PrivateEndpoints = Map.empty \<rparr>"
      and a = ?a and resourceGroupName = "''rg''" and pre = "[Some ?c1]" and c = ?c2
      and post = "[]" and rows = "[?row1]", OF lookup]
    listing before
  show ?thesis
    by (simp add: Fatalf_message_def)
qed

end
